theory Spec2Isabelle
  imports Complex_Main "HOL-Library.AList"
begin

section \<open>Data model\<close>

text \<open>
  The two mongoose schemas (\<^verbatim>\<open>models/Account.js\<close>, \<^verbatim>\<open>models/Donor.js\<close>) as records.
  Every stored document carries the \<^verbatim>\<open>_id\<close> the database gives it; identifiers are
  the strings that appear in route parameters, and a route parameter may be any string,
  well-formed as an object id or not. A schema field of type \<^verbatim>\<open>Number\<close> is a
  rational here: the rounding of IEEE doubles is not modelled. A donation's \<^verbatim>\<open>amount\<close>
  and \<^verbatim>\<open>date\<close> may be absent, since the add route stores whatever the body carries.
\<close>

type_synonym oid = string

record account =
  a_id :: oid
  a_role :: string
  a_username :: string
  a_password :: string

record donation =
  n_id :: oid
  n_amount :: "rat option"
  n_date :: "string option"

record donor =
  d_id :: oid
  d_name :: string
  d_address :: string
  d_city :: string
  d_donations :: "donation list"

text \<open>The two collections of the database.\<close>

record db =
  accounts :: "account list"
  donors :: "donor list"

text \<open>
  The session object of \<^verbatim>\<open>express-session\<close>, with the two properties the program
  touches: \<^verbatim>\<open>req.session.user\<close> (written by login, read by \<^verbatim>\<open>requireLogin\<close>) and
  \<^verbatim>\<open>req.session.role\<close> (read by the register route). A new or destroyed session has
  neither.
\<close>

record session_user =
  u_id :: oid
  u_username :: string
  u_role :: string

record session =
  s_user :: "session_user option"
  s_role :: "string option"

definition fresh_session :: session where
  "fresh_session = \<lparr>s_user = None, s_role = None\<rparr>"

text \<open>
  A request: method, path segments, query string, parsed body and session. A field of
  the body or of the query is absent (\<open>None\<close>) or holds a value of the type the schema
  gives it.
\<close>

datatype meth = GET | POST | PUT | DELETE

record body =
  b_role :: "string option"
  b_username :: "string option"
  b_password :: "string option"
  b_amount :: "rat option"
  b_date :: "string option"

record query =
  q_name :: "string option"
  q_city :: "string option"
  q_minTotal :: "string option"
  q_maxTotal :: "string option"
  q_sortBy :: "string option"
  q_sortOrder :: "string option"

record request =
  r_method :: meth
  r_path :: "string list"
  r_query :: query
  r_body :: body
  r_session :: session

definition no_body :: body where
  "no_body = \<lparr>b_role = None, b_username = None, b_password = None,
               b_amount = None, b_date = None\<rparr>"

definition no_query :: query where
  "no_query = \<lparr>q_name = None, q_city = None, q_minTotal = None, q_maxTotal = None,
                q_sortBy = None, q_sortOrder = None\<rparr>"

text \<open>
  Response bodies are JSON values; a response is \<^verbatim>\<open>res.status(c).json(v)\<close>
  (status 200 when \<^verbatim>\<open>status\<close> is not called), \<^verbatim>\<open>res.sendFile\<close>, or no route at all.
  \<open>Unhandled\<close> is the outcome of an \<^verbatim>\<open>async\<close> handler that throws outside any
  \<^verbatim>\<open>try\<close>: its promise rejects and the route writes no response.
\<close>

datatype json =
  JNull | JBool bool | JNum rat | JStr string | JArr "json list"
  | JObj "(string \<times> json) list"

datatype response = Json nat json | SendFile string | NoRoute | Unhandled

definition message :: "bool \<Rightarrow> string \<Rightarrow> json" where
  "message ok m = JObj [(''success'', JBool ok), (''message'', JStr m)]"

text \<open>
  The library functions the routes call and this repository does not define:
  \<^verbatim>\<open>bcrypt.hash(password, 10)\<close> (with the salt of the call), \<^verbatim>\<open>new RegExp(p, 'i')\<close>
  (\<open>None\<close> when the constructor throws, else the test the \<^verbatim>\<open>$match\<close> stage applies to a
  field), the \<^verbatim>\<open>$sort\<close> stage of the aggregation (field name, descending flag), and
  the test mongoose applies when it casts a string to an \<^verbatim>\<open>ObjectId\<close>.
\<close>

record libs =
  bcrypt_hash :: "string \<Rightarrow> string"
  regexp_i :: "string \<Rightarrow> (string \<Rightarrow> bool) option"
  mongo_sort :: "string \<Rightarrow> bool \<Rightarrow> (donor \<times> rat) list \<Rightarrow> (donor \<times> rat) list"
  is_object_id :: "string \<Rightarrow> bool"

section \<open>JavaScript helpers\<close>

text \<open>Truthiness of an optional string: \<^verbatim>\<open>undefined\<close> and \<^verbatim>\<open>''\<close> are falsy.\<close>

definition truthy :: "string option \<Rightarrow> bool" where
  "truthy v = (case v of None \<Rightarrow> False | Some s \<Rightarrow> s \<noteq> [])"

text \<open>\<^verbatim>\<open>a ?? b\<close>\<close>

definition nullish :: "'a option \<Rightarrow> 'a option \<Rightarrow> 'a option" where
  "nullish a b = (case a of None \<Rightarrow> b | Some x \<Rightarrow> Some x)"

text \<open>White space and line terminators among the code units below 256.\<close>

definition is_space :: "char \<Rightarrow> bool" where
  "is_space c = (of_char c \<in> {9, 10, 11, 12, 13, 32, 160 :: nat})"

definition trimStart :: "string \<Rightarrow> string" where
  "trimStart s = dropWhile is_space s"

definition trim :: "string \<Rightarrow> string" where
  "trim s = rev (dropWhile is_space (rev (dropWhile is_space s)))"

text \<open>
  \<^verbatim>\<open>parseFloat\<close>: skip leading white space, read the longest prefix that is a decimal
  literal (sign, \<^verbatim>\<open>Infinity\<close> or digits with an optional fraction and exponent), and
  give \<^verbatim>\<open>NaN\<close> when there is none.
\<close>

datatype jsnum = NaN | NegInf | Fin rat | PosInf

definition digit_val :: "char \<Rightarrow> nat option" where
  "digit_val c = (let n = (of_char c :: nat) in
     if 48 \<le> n \<and> n \<le> 57 then Some (n - 48) else None)"

definition is_digit :: "char \<Rightarrow> bool" where
  "is_digit c = (digit_val c \<noteq> None)"

definition digits_val :: "string \<Rightarrow> nat" where
  "digits_val ds = foldl (\<lambda>acc c. 10 * acc + (case digit_val c of None \<Rightarrow> 0 | Some d \<Rightarrow> d)) 0 ds"

definition starts_with :: "'a list \<Rightarrow> 'a list \<Rightarrow> bool" where
  "starts_with pre xs = (take (length pre) xs = pre)"

definition exponent_part :: "string \<Rightarrow> int" where
  "exponent_part s =
     (case s of
        [] \<Rightarrow> 0
      | e # t \<Rightarrow>
          if e = CHR ''e'' \<or> e = CHR ''E'' then
            (let (neg, u) = (case t of
                    [] \<Rightarrow> (False, [])
                  | c # v \<Rightarrow> if c = CHR ''-'' then (True, v)
                             else if c = CHR ''+'' then (False, v) else (False, t));
                 ds = takeWhile is_digit u
             in if ds = [] then 0
                else if neg then - int (digits_val ds) else int (digits_val ds))
          else 0)"

definition scale10 :: "rat \<Rightarrow> int \<Rightarrow> rat" where
  "scale10 x e = (if 0 \<le> e then x * 10 ^ nat e else x / 10 ^ nat (- e))"

definition unsigned_literal :: "string \<Rightarrow> jsnum" where
  "unsigned_literal s =
     (if starts_with ''Infinity'' s then PosInf
      else
        let ip = takeWhile is_digit s; r1 = dropWhile is_digit s;
            dot = (case r1 of [] \<Rightarrow> False | c # _ \<Rightarrow> c = CHR ''.'');
            fp = (if dot then takeWhile is_digit (tl r1) else []);
            r2 = (if dot then dropWhile is_digit (tl r1) else r1)
        in if ip = [] \<and> fp = [] then NaN
           else Fin (scale10 (of_nat (digits_val ip)
                       + of_nat (digits_val fp) / 10 ^ length fp) (exponent_part r2)))"

definition neg_num :: "jsnum \<Rightarrow> jsnum" where
  "neg_num x = (case x of NaN \<Rightarrow> NaN | NegInf \<Rightarrow> PosInf | Fin r \<Rightarrow> Fin (- r) | PosInf \<Rightarrow> NegInf)"

definition parseFloat :: "string \<Rightarrow> jsnum" where
  "parseFloat s =
     (case trimStart s of
        [] \<Rightarrow> NaN
      | c # t \<Rightarrow> if c = CHR ''-'' then neg_num (unsigned_literal t)
                 else if c = CHR ''+'' then unsigned_literal t
                 else unsigned_literal (c # t))"

section \<open>Store operations\<close>

text \<open>
  \<^verbatim>\<open>findOne\<close> and \<^verbatim>\<open>findById\<close> give the first matching document of the collection
  (\<open>find\<close>); saving a loaded document and \<^verbatim>\<open>findByIdAndUpdate\<close> rewrite the first
  document with that \<^verbatim>\<open>_id\<close>; \<^verbatim>\<open>findByIdAndDelete\<close> removes it. The three
  \<^verbatim>\<open>findById...\<close> calls first cast their argument to an \<^verbatim>\<open>ObjectId\<close> and throw a
  \<^verbatim>\<open>CastError\<close> when it is not one.
\<close>

datatype error = CastError

definition castObjectId :: "libs \<Rightarrow> string \<Rightarrow> error + oid" where
  "castObjectId L i = (if is_object_id L i then Inr i else Inl CastError)"

fun update_first :: "('a \<Rightarrow> bool) \<Rightarrow> ('a \<Rightarrow> 'a) \<Rightarrow> 'a list \<Rightarrow> 'a list" where
  "update_first P f [] = []"
| "update_first P f (x # xs) = (if P x then f x # xs else x # update_first P f xs)"

fun delete_first :: "('a \<Rightarrow> bool) \<Rightarrow> 'a list \<Rightarrow> 'a list" where
  "delete_first P [] = []"
| "delete_first P (x # xs) = (if P x then xs else x # delete_first P xs)"

definition findById :: "libs \<Rightarrow> string \<Rightarrow> donor list \<Rightarrow> error + donor option" where
  "findById L i ds =
     (case castObjectId L i of
        Inl e \<Rightarrow> Inl e
      | Inr k \<Rightarrow> Inr (find (\<lambda>d. d_id d = k) ds))"

definition save :: "donor \<Rightarrow> db \<Rightarrow> db" where
  "save d st = st\<lparr>donors := update_first (\<lambda>x. d_id x = d_id d) (\<lambda>_. d) (donors st)\<rparr>"

section \<open>JSON documents\<close>

definition opt_field :: "string \<Rightarrow> ('a \<Rightarrow> json) \<Rightarrow> 'a option \<Rightarrow> (string \<times> json) list" where
  "opt_field k enc v = (case v of None \<Rightarrow> [] | Some x \<Rightarrow> [(k, enc x)])"

definition donation_json :: "donation \<Rightarrow> json" where
  "donation_json n =
     JObj (opt_field ''amount'' JNum (n_amount n) @ opt_field ''date'' JStr (n_date n)
           @ [(''_id'', JStr (n_id n))])"

definition donor_fields :: "donor \<Rightarrow> (string \<times> json) list" where
  "donor_fields d =
     [(''_id'', JStr (d_id d)), (''name'', JStr (d_name d)),
      (''address'', JStr (d_address d)), (''city'', JStr (d_city d)),
      (''donations'', JArr (map donation_json (d_donations d)))]"

definition donor_json :: "donor \<Rightarrow> json" where
  "donor_json d = JObj (donor_fields d)"

definition donor_total_json :: "donor \<times> rat \<Rightarrow> json" where
  "donor_total_json dt = JObj (donor_fields (fst dt) @ [(''totalDonation'', JNum (snd dt))])"

definition account_doc :: "account \<Rightarrow> (string \<times> json) list" where
  "account_doc a =
     [(''_id'', JStr (a_id a)), (''role'', JStr (a_role a)),
      (''username'', JStr (a_username a)), (''password'', JStr (a_password a))]"

text \<open>\<^verbatim>\<open>.select('-password')\<close>: the projection that drops one field.\<close>

definition select_minus :: "string \<Rightarrow> (string \<times> json) list \<Rightarrow> (string \<times> json) list" where
  "select_minus k doc = filter (\<lambda>kv. fst kv \<noteq> k) doc"

definition user_json :: "session_user \<Rightarrow> json" where
  "user_json u =
     JObj [(''id'', JStr (u_id u)), (''username'', JStr (u_username u)),
           (''role'', JStr (u_role u))]"

section \<open>Authentication and session\<close>

text \<open>
  \<^verbatim>\<open>requireLogin\<close>: \<open>Some r\<close> when the middleware answers itself, \<open>None\<close> when it calls
  \<^verbatim>\<open>next()\<close>.
\<close>

definition requireLogin :: "session \<Rightarrow> response option" where
  "requireLogin s =
     (case s_user s of
        None \<Rightarrow> Some (Json 401 (message False ''Unauthorized. Please log in.''))
      | Some _ \<Rightarrow> None)"

text \<open>\<^verbatim>\<open>POST /api/register\<close>; \<open>nid\<close> is the \<^verbatim>\<open>_id\<close> the new document receives.\<close>

definition register :: "libs \<Rightarrow> oid \<Rightarrow> db \<Rightarrow> session \<Rightarrow> body \<Rightarrow> db \<times> response" where
  "register L nid st s b =
     (if s_role s \<noteq> Some ''admin'' then
        (st, Json 403 (message False ''Only admin can create accounts.''))
      else if \<not> truthy (b_username b) \<or> \<not> truthy (b_password b) \<or> \<not> truthy (b_role b) then
        (st, Json 200 (message False ''All fields are required.''))
      else
        (case (b_role b, b_username b, b_password b) of
           (Some r, Some u, Some p) \<Rightarrow>
             (case find (\<lambda>a. a_username a = u) (accounts st) of
                Some _ \<Rightarrow> (st, Json 200 (message False ''Username already exists.''))
              | None \<Rightarrow>
                  (st\<lparr>accounts := accounts st @
                        [\<lparr>a_id = nid, a_role = r, a_username = u,
                          a_password = bcrypt_hash L p\<rparr>]\<rparr>,
                   Json 200 (message True ''Account created successfully.'')))
         | _ \<Rightarrow> (st, Json 200 (message False ''All fields are required.''))))"

text \<open>
  \<^verbatim>\<open>POST /api/login\<close>. \<^verbatim>\<open>username.trim()\<close> throws a \<^verbatim>\<open>TypeError\<close> when the body has no
  \<^verbatim>\<open>username\<close>; the \<^verbatim>\<open>catch\<close> answers 500. The stored password is compared with the
  submitted one by \<^verbatim>\<open>!==\<close>.
\<close>

definition login :: "db \<Rightarrow> session \<Rightarrow> body \<Rightarrow> session \<times> response" where
  "login st s b =
     (case b_username b of
        None \<Rightarrow> (s, Json 500 (message False ''Server error''))
      | Some u \<Rightarrow>
          (case find (\<lambda>a. a_username a = trim u) (accounts st) of
             None \<Rightarrow> (s, Json 401 (message False ''Invalid credentials''))
           | Some a \<Rightarrow>
               if Some (a_password a) \<noteq> b_password b then
                 (s, Json 401 (message False ''Invalid credentials''))
               else
                 (let usr = \<lparr>u_id = a_id a, u_username = a_username a, u_role = a_role a\<rparr>
                  in (s\<lparr>s_user := Some usr\<rparr>,
                      Json 200 (JObj [(''success'', JBool True),
                                      (''message'', JStr ''Login successful''),
                                      (''user'', user_json usr)])))))"

text \<open>\<^verbatim>\<open>POST /api/logout\<close>: the session is destroyed, whatever it held.\<close>

definition logout :: "session \<Rightarrow> session \<times> response" where
  "logout s = (fresh_session, Json 200 (message True ''Logged out''))"

section \<open>Donor query\<close>

text \<open>\<^verbatim>\<open>$sum: "$donations.amount"\<close>: an item without a numeric amount adds nothing.\<close>

definition totalDonation :: "donor \<Rightarrow> rat" where
  "totalDonation d =
     sum_list (map (\<lambda>n. case n_amount n of None \<Rightarrow> 0 | Some a \<Rightarrow> a) (d_donations d))"

text \<open>
  The conditions of the second \<^verbatim>\<open>$match\<close> stage. A comparison with \<^verbatim>\<open>NaN\<close> holds for
  no finite number.
\<close>

datatype cond = Gte jsnum | Lte jsnum

fun holds :: "cond \<Rightarrow> rat \<Rightarrow> bool" where
  "holds (Gte NaN) v = False"
| "holds (Gte NegInf) v = True"
| "holds (Gte (Fin b)) v = (b \<le> v)"
| "holds (Gte PosInf) v = False"
| "holds (Lte NaN) v = False"
| "holds (Lte NegInf) v = False"
| "holds (Lte (Fin b)) v = (v \<le> b)"
| "holds (Lte PosInf) v = True"

text \<open>
  Object spread \<^verbatim>\<open>{...a, ...b}\<close> on objects as association lists: a key of \<open>b\<close> that
  \<open>a\<close> already has overwrites its value.
\<close>

definition spread :: "(string \<times> 'v) list \<Rightarrow> (string \<times> 'v) list \<Rightarrow> (string \<times> 'v) list" where
  "spread a b = foldl (\<lambda>acc kv. AList.update (fst kv) (snd kv) acc) a b"

text \<open>
  The object given to the second \<^verbatim>\<open>$match\<close>:
  \<^verbatim>\<open>{...(minTotal ? {totalDonation: {$gte: parseFloat(minTotal)}} : {}),
    ...(maxTotal ? {totalDonation: {$lte: parseFloat(maxTotal)}} : {})}\<close>.
\<close>

definition total_match :: "string option \<Rightarrow> string option \<Rightarrow> (string \<times> cond) list" where
  "total_match minTotal maxTotal =
     spread
       (spread []
          (case minTotal of
             None \<Rightarrow> []
           | Some s \<Rightarrow> if s = [] then [] else [(''totalDonation'', Gte (parseFloat s))]))
       (case maxTotal of
          None \<Rightarrow> []
        | Some s \<Rightarrow> if s = [] then [] else [(''totalDonation'', Lte (parseFloat s))])"

definition matches :: "(string \<times> cond) list \<Rightarrow> donor \<times> rat \<Rightarrow> bool" where
  "matches spec dt =
     list_all (\<lambda>kc. fst kc = ''totalDonation'' \<and> holds (snd kc) (snd dt)) spec"

text \<open>
  \<^verbatim>\<open>if (name) filter.name = new RegExp(name, 'i')\<close>: \<open>None\<close> when the constructor
  throws, \<open>Some None\<close> when the parameter is falsy, \<open>Some (Some t)\<close> with the test.
\<close>

definition field_regex :: "libs \<Rightarrow> string option \<Rightarrow> (string \<Rightarrow> bool) option option" where
  "field_regex L v =
     (case v of
        None \<Rightarrow> Some None
      | Some p \<Rightarrow> if p = [] then Some None
                  else (case regexp_i L p of None \<Rightarrow> None | Some t \<Rightarrow> Some (Some t)))"

definition passes :: "(string \<Rightarrow> bool) option \<Rightarrow> string \<Rightarrow> bool" where
  "passes t v = (case t of None \<Rightarrow> True | Some f \<Rightarrow> f v)"

text \<open>The aggregation pipeline of \<^verbatim>\<open>GET /api/donors\<close>, stage by stage.\<close>

definition pipeline ::
  "libs \<Rightarrow> (string \<Rightarrow> bool) option \<Rightarrow> (string \<Rightarrow> bool) option \<Rightarrow> query \<Rightarrow> donor list
    \<Rightarrow> (donor \<times> rat) list" where
  "pipeline L fname fcity q ds =
     (let s1 = filter (\<lambda>d. passes fname (d_name d) \<and> passes fcity (d_city d)) ds;
          s2 = map (\<lambda>d. (d, totalDonation d)) s1;
          s3 = (if truthy (q_minTotal q) \<or> truthy (q_maxTotal q)
                then filter (matches (total_match (q_minTotal q) (q_maxTotal q))) s2
                else s2)
      in case q_sortBy q of
           None \<Rightarrow> s3
         | Some k \<Rightarrow> if k = [] then s3
                     else mongo_sort L k (q_sortOrder q = Some ''desc'') s3)"

definition listDonors :: "libs \<Rightarrow> db \<Rightarrow> query \<Rightarrow> response" where
  "listDonors L st q =
     (case field_regex L (q_name q) of
        None \<Rightarrow> Json 500 (message False ''Server error'')
      | Some fname \<Rightarrow>
          (case field_regex L (q_city q) of
             None \<Rightarrow> Json 500 (message False ''Server error'')
           | Some fcity \<Rightarrow>
               Json 200 (JObj [(''success'', JBool True),
                 (''donors'', JArr (map donor_total_json
                                      (pipeline L fname fcity q (donors st))))])))"

section \<open>Donor and donation mutation\<close>

definition not_found :: "string \<Rightarrow> response" where
  "not_found m = Json 404 (message False m)"

definition donor_ok :: "donor \<Rightarrow> response" where
  "donor_ok d = Json 200 (JObj [(''success'', JBool True), (''donor'', donor_json d)])"

text \<open>
  \<^verbatim>\<open>DELETE /api/donors/:id\<close>: \<^verbatim>\<open>findByIdAndDelete\<close> is called inside a \<^verbatim>\<open>try\<close>, and
  the \<^verbatim>\<open>catch\<close> answers 500.
\<close>

definition deleteDonor :: "libs \<Rightarrow> db \<Rightarrow> string \<Rightarrow> db \<times> response" where
  "deleteDonor L st donorId =
     (case findById L donorId (donors st) of
        Inl _ \<Rightarrow> (st, Json 500 (message False ''Server error''))
      | Inr None \<Rightarrow> (st, not_found ''Donor not found'')
      | Inr (Some _) \<Rightarrow>
          (st\<lparr>donors := delete_first (\<lambda>d. d_id d = donorId) (donors st)\<rparr>,
           Json 200 (message True ''Donor removed'')))"

text \<open>
  \<^verbatim>\<open>POST /api/donors/:id/donations\<close>; \<open>nid\<close> is the \<^verbatim>\<open>_id\<close> the pushed subdocument
  receives. This handler and the four after it have no \<^verbatim>\<open>try\<close>: a \<^verbatim>\<open>CastError\<close> of
  the lookup is not caught.
\<close>

definition addDonation :: "libs \<Rightarrow> oid \<Rightarrow> db \<Rightarrow> string \<Rightarrow> body \<Rightarrow> db \<times> response" where
  "addDonation L nid st donorId b =
     (case findById L donorId (donors st) of
        Inl _ \<Rightarrow> (st, Unhandled)
      | Inr None \<Rightarrow> (st, not_found ''Donor not found'')
      | Inr (Some d) \<Rightarrow>
          (let d' = d\<lparr>d_donations := d_donations d @
                        [\<lparr>n_id = nid, n_amount = b_amount b, n_date = b_date b\<rparr>]\<rparr>
           in (save d' st, donor_ok d')))"

text \<open>
  \<^verbatim>\<open>PUT /api/donors/:donorId/donations/:donationId\<close>. \<^verbatim>\<open>donor.donations.id(donationId)\<close>
  gives the first subdocument with that \<^verbatim>\<open>_id\<close> or \<^verbatim>\<open>null\<close>; it does not throw.
\<close>

definition updateDonation :: "libs \<Rightarrow> db \<Rightarrow> string \<Rightarrow> string \<Rightarrow> body \<Rightarrow> db \<times> response" where
  "updateDonation L st donorId donationId b =
     (case findById L donorId (donors st) of
        Inl _ \<Rightarrow> (st, Unhandled)
      | Inr None \<Rightarrow> (st, not_found ''Donor not found'')
      | Inr (Some d) \<Rightarrow>
          (case find (\<lambda>n. n_id n = donationId) (d_donations d) of
             None \<Rightarrow> (st, not_found ''Donation not found'')
           | Some _ \<Rightarrow>
               (let d' = d\<lparr>d_donations :=
                            update_first (\<lambda>n. n_id n = donationId)
                              (\<lambda>n. n\<lparr>n_amount := nullish (b_amount b) (n_amount n),
                                     n_date := nullish (b_date b) (n_date n)\<rparr>)
                              (d_donations d)\<rparr>
                in (save d' st, donor_ok d'))))"

text \<open>\<^verbatim>\<open>DELETE /api/donors/:donorId/donations/:donationId\<close>\<close>

definition removeDonation :: "libs \<Rightarrow> db \<Rightarrow> string \<Rightarrow> string \<Rightarrow> db \<times> response" where
  "removeDonation L st donorId donationId =
     (case findById L donorId (donors st) of
        Inl _ \<Rightarrow> (st, Unhandled)
      | Inr None \<Rightarrow> (st, not_found ''Donor not found'')
      | Inr (Some d) \<Rightarrow>
          (let d' = d\<lparr>d_donations := filter (\<lambda>n. n_id n \<noteq> donationId) (d_donations d)\<rparr>
           in (save d' st, donor_ok d')))"

section \<open>Account management\<close>

text \<open>\<^verbatim>\<open>GET /api/accounts\<close>: the array itself is the body.\<close>

definition listAccounts :: "db \<Rightarrow> response" where
  "listAccounts st =
     Json 200 (JArr (map (\<lambda>a. JObj (select_minus ''password'' (account_doc a))) (accounts st)))"

text \<open>\<^verbatim>\<open>PUT /api/accounts/:id\<close>: a field the body lacks is left out of the update.\<close>

definition updateAccount :: "libs \<Rightarrow> db \<Rightarrow> string \<Rightarrow> body \<Rightarrow> db \<times> response" where
  "updateAccount L st i b =
     (case castObjectId L i of
        Inl _ \<Rightarrow> (st, Unhandled)
      | Inr k \<Rightarrow>
          (st\<lparr>accounts := update_first (\<lambda>a. a_id a = k)
                 (\<lambda>a. a\<lparr>a_username :=
                          (case b_username b of None \<Rightarrow> a_username a | Some u \<Rightarrow> u),
                        a_role := (case b_role b of None \<Rightarrow> a_role a | Some r \<Rightarrow> r)\<rparr>)
                 (accounts st)\<rparr>,
           Json 200 (message True ''Account updated successfully.'')))"

text \<open>\<^verbatim>\<open>DELETE /api/accounts/:id\<close>\<close>

definition deleteAccount :: "libs \<Rightarrow> db \<Rightarrow> string \<Rightarrow> db \<times> response" where
  "deleteAccount L st i =
     (case castObjectId L i of
        Inl _ \<Rightarrow> (st, Unhandled)
      | Inr k \<Rightarrow>
          (st\<lparr>accounts := delete_first (\<lambda>a. a_id a = k) (accounts st)\<rparr>,
           Json 200 (message True ''Account deleted successfully.'')))"

section \<open>Routing\<close>

text \<open>
  The application is the list of layers in the order \<^verbatim>\<open>app.get\<close>, \<^verbatim>\<open>app.post\<close>,
  \<^verbatim>\<open>app.use\<close>, ... register them. The body parsers, the static file server and the
  session middleware come first and hand every request of the API on; they are not
  layers here. A route answers a request of its method whose path
  matches its pattern (a segment that starts with a colon binds a parameter); the
  \<^verbatim>\<open>requireLogin\<close> middleware runs on every path under its mount point and either answers
  or hands on to the layers after it.
\<close>

datatype handler =
  Index | Register | Login | Logout | ListDonors | DeleteDonor | AddDonation
  | UpdateDonation | RemoveDonation | ListAccounts | UpdateAccount | DeleteAccount

datatype layer = Route meth "string list" handler | UseRequireLogin "string list"

definition is_param :: "string \<Rightarrow> bool" where
  "is_param q = (case q of [] \<Rightarrow> False | c # _ \<Rightarrow> c = CHR '':'')"

fun match_path :: "string list \<Rightarrow> string list \<Rightarrow> string list option" where
  "match_path [] [] = Some []"
| "match_path (q # qs) (x # xs) =
     (if is_param q then
        (if x = [] then None
         else (case match_path qs xs of None \<Rightarrow> None | Some ps \<Rightarrow> Some (x # ps)))
      else if q = x then match_path qs xs else None)"
| "match_path _ _ = None"

definition routes :: "layer list" where
  "routes =
     [Route GET [] Index,
      Route POST [''api'', ''register''] Register,
      Route POST [''api'', ''login''] Login,
      Route POST [''api'', ''logout''] Logout,
      UseRequireLogin [''api'', ''donors''],
      UseRequireLogin [''api'', ''donations''],
      Route GET [''api'', ''donors''] ListDonors,
      Route DELETE [''api'', ''donors'', '':id''] DeleteDonor,
      Route POST [''api'', ''donors'', '':id'', ''donations''] AddDonation,
      Route PUT [''api'', ''donors'', '':donorId'', ''donations'', '':donationId'']
        UpdateDonation,
      Route DELETE [''api'', ''donors'', '':donorId'', ''donations'', '':donationId'']
        RemoveDonation,
      Route GET [''api'', ''accounts''] ListAccounts,
      Route PUT [''api'', ''accounts'', '':id''] UpdateAccount,
      Route DELETE [''api'', ''accounts'', '':id''] DeleteAccount]"

text \<open>
  One handler on the parameters its pattern bound (a pattern binds as many as its
  handler reads). The result is the database, the session and the response after the
  request.
\<close>

definition run_handler ::
  "libs \<Rightarrow> oid \<Rightarrow> handler \<Rightarrow> string list \<Rightarrow> db \<Rightarrow> request \<Rightarrow> db \<times> session \<times> response" where
  "run_handler L nid h ps st rq =
     (let s = r_session rq; b = r_body rq in
      case h of
        Index \<Rightarrow> (st, s, SendFile ''donation.html'')
      | Register \<Rightarrow> (let (st', r) = register L nid st s b in (st', s, r))
      | Login \<Rightarrow> (let (s', r) = login st s b in (st, s', r))
      | Logout \<Rightarrow> (let (s', r) = logout s in (st, s', r))
      | ListDonors \<Rightarrow> (st, s, listDonors L st (r_query rq))
      | DeleteDonor \<Rightarrow>
          (case ps of
             [i] \<Rightarrow> (let (st', r) = deleteDonor L st i in (st', s, r))
           | _ \<Rightarrow> (st, s, NoRoute))
      | AddDonation \<Rightarrow>
          (case ps of
             [i] \<Rightarrow> (let (st', r) = addDonation L nid st i b in (st', s, r))
           | _ \<Rightarrow> (st, s, NoRoute))
      | UpdateDonation \<Rightarrow>
          (case ps of
             [i, j] \<Rightarrow> (let (st', r) = updateDonation L st i j b in (st', s, r))
           | _ \<Rightarrow> (st, s, NoRoute))
      | RemoveDonation \<Rightarrow>
          (case ps of
             [i, j] \<Rightarrow> (let (st', r) = removeDonation L st i j in (st', s, r))
           | _ \<Rightarrow> (st, s, NoRoute))
      | ListAccounts \<Rightarrow> (st, s, listAccounts st)
      | UpdateAccount \<Rightarrow>
          (case ps of
             [i] \<Rightarrow> (let (st', r) = updateAccount L st i b in (st', s, r))
           | _ \<Rightarrow> (st, s, NoRoute))
      | DeleteAccount \<Rightarrow>
          (case ps of
             [i] \<Rightarrow> (let (st', r) = deleteAccount L st i in (st', s, r))
           | _ \<Rightarrow> (st, s, NoRoute)))"

fun dispatch ::
  "libs \<Rightarrow> oid \<Rightarrow> layer list \<Rightarrow> db \<Rightarrow> request \<Rightarrow> db \<times> session \<times> response" where
  "dispatch L nid [] st rq = (st, r_session rq, NoRoute)"
| "dispatch L nid (Route m pat h # ls) st rq =
     (if r_method rq = m then
        (case match_path pat (r_path rq) of
           Some ps \<Rightarrow> run_handler L nid h ps st rq
         | None \<Rightarrow> dispatch L nid ls st rq)
      else dispatch L nid ls st rq)"
| "dispatch L nid (UseRequireLogin mount # ls) st rq =
     (if starts_with mount (r_path rq) then
        (case requireLogin (r_session rq) of
           Some r \<Rightarrow> (st, r_session rq, r)
         | None \<Rightarrow> dispatch L nid ls st rq)
      else dispatch L nid ls st rq)"

definition app :: "libs \<Rightarrow> oid \<Rightarrow> db \<Rightarrow> request \<Rightarrow> db \<times> session \<times> response" where
  "app L nid st rq = dispatch L nid routes st rq"

section \<open>Observations on requests and responses\<close>


text \<open>Every property name that occurs in a JSON value, at any depth.\<close>

fun json_keys :: "json \<Rightarrow> string list" where
  "json_keys (JArr xs) = concat (map json_keys xs)"
| "json_keys (JObj kvs) = concat (map (\<lambda>kv. fst kv # json_keys (snd kv)) kvs)"
| "json_keys _ = []"

text \<open>
  An envelope: an object with a boolean \<^verbatim>\<open>success\<close> and a \<^verbatim>\<open>message\<close> or one of the
  named payloads. Section 6 of the specification names the payloads \<^verbatim>\<open>donors\<close>,
  \<^verbatim>\<open>donor\<close>, \<^verbatim>\<open>accounts\<close> and \<^verbatim>\<open>user\<close>.
\<close>

definition is_bool :: "json option \<Rightarrow> bool" where
  "is_bool v = (case v of Some (JBool _) \<Rightarrow> True | _ \<Rightarrow> False)"

definition envelope_with :: "string list \<Rightarrow> json \<Rightarrow> bool" where
  "envelope_with payloads v =
     (case v of
        JObj kvs \<Rightarrow>
          is_bool (map_of kvs ''success'') \<and>
          list_ex (\<lambda>k. map_of kvs k \<noteq> None) (''message'' # payloads)
      | _ \<Rightarrow> False)"

definition envelope :: "json \<Rightarrow> bool" where
  "envelope v = envelope_with [''donors'', ''donor'', ''accounts'', ''user''] v"

abbreviation enveloped :: "json \<Rightarrow> bool" where
  "enveloped v \<equiv> envelope_with [''donors'', ''donor'', ''user''] v"




section \<open>A concrete instance\<close>

text \<open>
  Library functions and data on which the model is evaluated. The hash prepends the
  prefix every bcrypt hash of cost 10 starts with; the regular expression covers
  patterns without metacharacters (a case-insensitive substring test on ASCII) and
  rejects the others; the sort orders by \<^verbatim>\<open>totalDonation\<close> and leaves the list as it
  is for any other key; an object id is a string of 24 hexadecimal digits.
\<close>

definition prefix_hash :: "string \<Rightarrow> string" where
  "prefix_hash p = ''$2b$10$'' @ p"

definition lower :: "char \<Rightarrow> char" where
  "lower c = (let n = (of_char c :: nat) in if 65 \<le> n \<and> n \<le> 90 then char_of (n + 32) else c)"

fun contains :: "string \<Rightarrow> string \<Rightarrow> bool" where
  "contains p [] = (p = [])"
| "contains p (c # s) = (starts_with p (c # s) \<or> contains p s)"

definition literal_regexp :: "string \<Rightarrow> (string \<Rightarrow> bool) option" where
  "literal_regexp p =
     (if list_ex (\<lambda>c. c \<in> set (CHR 0x5C # ''^$.|?*+()[]{}'')) p then None
      else Some (\<lambda>s. contains (map lower p) (map lower s)))"

definition total_sort :: "string \<Rightarrow> bool \<Rightarrow> (donor \<times> rat) list \<Rightarrow> (donor \<times> rat) list" where
  "total_sort k desc xs =
     (if k = ''totalDonation'' then (if desc then rev (sort_key snd xs) else sort_key snd xs)
      else xs)"

definition is_hex :: "char \<Rightarrow> bool" where
  "is_hex c = (let n = (of_char c :: nat) in
     (48 \<le> n \<and> n \<le> 57) \<or> (97 \<le> n \<and> n \<le> 102) \<or> (65 \<le> n \<and> n \<le> 70))"

definition hex24 :: "string \<Rightarrow> bool" where
  "hex24 s = (length s = 24 \<and> list_all is_hex s)"

definition sample_libs :: libs where
  "sample_libs = \<lparr>bcrypt_hash = prefix_hash, regexp_i = literal_regexp,
                   mongo_sort = total_sort, is_object_id = hex24\<rparr>"

definition ann_id :: oid where "ann_id = ''65a1b2c3d4e5f60718293a01''"
definition bea_id :: oid where "bea_id = ''65a1b2c3d4e5f60718293a02''"
definition gift1_id :: oid where "gift1_id = ''65a1b2c3d4e5f60718293b01''"
definition gift2_id :: oid where "gift2_id = ''65a1b2c3d4e5f60718293b02''"
definition gift3_id :: oid where "gift3_id = ''65a1b2c3d4e5f60718293b03''"
definition root_id :: oid where "root_id = ''65a1b2c3d4e5f60718293c01''"
definition new_id :: oid where "new_id = ''65a1b2c3d4e5f60718293d01''"
definition absent_id :: oid where "absent_id = ''65a1b2c3d4e5f60718293e01''"

definition ann :: donor where
  "ann = \<lparr>d_id = ann_id, d_name = ''Ann'', d_address = ''1 rue Neuve'', d_city = ''Lyon'',
           d_donations = [\<lparr>n_id = gift1_id, n_amount = Some 50, n_date = Some ''2024-01-01''\<rparr>,
                          \<lparr>n_id = gift2_id, n_amount = Some 30, n_date = Some ''2024-02-01''\<rparr>]\<rparr>"

definition bea :: donor where
  "bea = \<lparr>d_id = bea_id, d_name = ''Bea'', d_address = ''2 quai Sud'', d_city = ''Nice'',
           d_donations = [\<lparr>n_id = gift3_id, n_amount = Some 20, n_date = None\<rparr>]\<rparr>"

definition root_account :: account where
  "root_account = \<lparr>a_id = root_id, a_role = ''admin'', a_username = ''root'',
                    a_password = ''secret''\<rparr>"

definition sample_db :: db where
  "sample_db = \<lparr>accounts = [root_account], donors = [ann, bea]\<rparr>"

definition root_user :: session_user where
  "root_user = \<lparr>u_id = root_id, u_username = ''root'', u_role = ''admin''\<rparr>"

definition root_session :: session where
  "root_session = \<lparr>s_user = Some root_user, s_role = None\<rparr>"

definition req :: "meth \<Rightarrow> string list \<Rightarrow> query \<Rightarrow> body \<Rightarrow> session \<Rightarrow> request" where
  "req m p q b s = \<lparr>r_method = m, r_path = p, r_query = q, r_body = b, r_session = s\<rparr>"

section \<open>Auxiliary facts\<close>

lemma filter_delete_first:
  "filter (\<lambda>x. \<not> P x) (delete_first P xs) = filter (\<lambda>x. \<not> P x) xs"
  by (induction xs) auto

lemma filter_update_first:
  "(\<And>x. P x \<Longrightarrow> P (f x)) \<Longrightarrow>
     filter (\<lambda>x. \<not> P x) (update_first P f xs) = filter (\<lambda>x. \<not> P x) xs"
  by (induction xs) auto

lemma findById_id: "findById L i ds = Inr (Some d) \<Longrightarrow> d_id d = i"
  by (auto simp: findById_def castObjectId_def find_Some_iff split: if_splits)

lemma others_save:
  "d_id d = X \<Longrightarrow>
     filter (\<lambda>x. d_id x \<noteq> X) (donors (save d st)) = filter (\<lambda>x. d_id x \<noteq> X) (donors st)"
  using filter_update_first [of "\<lambda>x. d_id x = X" "\<lambda>_. d" "donors st"]
  by (simp add: save_def)

lemmas parseFloat_defs =
  parseFloat_def trimStart_def is_space_def unsigned_literal_def starts_with_def
  is_digit_def digit_val_def digits_val_def exponent_part_def scale10_def neg_num_def

lemmas sample_ids =
  ann_id_def bea_id_def gift1_id_def gift2_id_def gift3_id_def root_id_def new_id_def
  absent_id_def

lemma sample_ids_wf:
  "hex24 ann_id" "hex24 bea_id" "hex24 root_id" "hex24 absent_id" "\<not> hex24 ''zz''"
  by (simp_all add: hex24_def is_hex_def sample_ids)

lemma find_append_new:
  "find P xs = None \<Longrightarrow> P y \<Longrightarrow> find P (xs @ [y]) = Some y"
  by (induction xs) (auto split: if_splits)

lemma register_success:
  assumes "register L nid st s b = (st', Json 200 (message True ''Account created successfully.''))"
  shows "\<exists>r u p. b_role b = Some r \<and> b_username b = Some u \<and> b_password b = Some p
           \<and> find (\<lambda>a. a_username a = u) (accounts st) = None
           \<and> accounts st' = accounts st @
                [\<lparr>a_id = nid, a_role = r, a_username = u, a_password = bcrypt_hash L p\<rparr>]"
  using assms
  by (auto simp: register_def message_def truthy_def split: if_splits option.splits)

lemma login_role: "login st s b = (s', r) \<Longrightarrow> s_role s' = s_role s"
  by (auto simp: login_def Let_def split: option.splits if_splits)

lemma total_match_max:
  "truthy (Some x) \<Longrightarrow> total_match m (Some x) = [(''totalDonation'', Lte (parseFloat x))]"
  by (auto simp: total_match_def spread_def truthy_def split: option.splits)




subsection \<open>Routing and responses\<close>

lemma dispatch_result:
  "dispatch L nid ls st rq = res \<Longrightarrow>
     res = (st, r_session rq, NoRoute)
     \<or> (\<exists>r. requireLogin (r_session rq) = Some r \<and> res = (st, r_session rq, r))
     \<or> (\<exists>m pat h ps. Route m pat h \<in> set ls \<and> r_method rq = m
            \<and> match_path pat (r_path rq) = Some ps \<and> res = run_handler L nid h ps st rq)"
proof (induction L nid ls st rq rule: dispatch.induct)
  case (1 L nid st rq)
  then show ?case by simp
next
  case (2 L nid m pat h ls st rq)
  then show ?case
    by (cases "r_method rq = m"; cases "match_path pat (r_path rq)") auto
next
  case (3 L nid mount ls st rq)
  then show ?case
    by (cases "starts_with mount (r_path rq)"; cases "requireLogin (r_session rq)") auto
qed





lemma keys_message: "json_keys (message ok m) = [''success'', ''message'']"
  by (simp add: message_def)

lemma enveloped_message: "enveloped (message ok m)"
  by (simp add: envelope_with_def message_def is_bool_def)

lemma enveloped_payload:
  "k \<in> set [''donors'', ''donor'', ''user''] \<Longrightarrow>
     enveloped (JObj ((''success'', JBool ok) # kvs @ [(k, v)]))"
  by (auto simp: envelope_with_def is_bool_def split: option.splits)

lemma enveloped_envelope: "enveloped v \<Longrightarrow> envelope v"
  by (cases v) (auto simp: envelope_def envelope_with_def)

lemma keys_donation: "''password'' \<notin> set (json_keys (donation_json n))"
  by (cases "n_amount n"; cases "n_date n") (simp_all add: donation_json_def opt_field_def)

lemma keys_donor_fields:
  "''password'' \<notin> set (concat (map (\<lambda>kv. fst kv # json_keys (snd kv)) (donor_fields d)))"
  by (simp add: donor_fields_def keys_donation)

lemma keys_donor: "''password'' \<notin> set (json_keys (donor_json d))"
  using keys_donor_fields by (simp add: donor_json_def)

lemma keys_donor_total: "''password'' \<notin> set (json_keys (donor_total_json dt))"
  using keys_donor_fields [of "fst dt"] by (simp add: donor_total_json_def)

lemma select_minus_account:
  "select_minus ''password'' (account_doc a) =
     [(''_id'', JStr (a_id a)), (''role'', JStr (a_role a)), (''username'', JStr (a_username a))]"
  by (simp add: select_minus_def account_doc_def)

lemma listAccounts_eq:
  "listAccounts st =
     Json 200 (JArr (map (\<lambda>a. JObj [(''_id'', JStr (a_id a)), (''role'', JStr (a_role a)),
                                      (''username'', JStr (a_username a))]) (accounts st)))"
  by (simp add: listAccounts_def select_minus_account)

lemma keys_listAccounts: "listAccounts st = Json c v \<Longrightarrow> ''password'' \<notin> set (json_keys v)"
  by (auto simp: listAccounts_eq split: if_splits)

text \<open>
  What each handler answers: a JSON envelope without a \<^verbatim>\<open>password\<close> property, or, for
  the handlers that cast a route parameter outside a \<^verbatim>\<open>try\<close>, nothing when the
  parameter is not an object id.
\<close>

lemma resp_message:
  "\<exists>c v. Json k (message ok m) = Json c v \<and> ''password'' \<notin> set (json_keys v) \<and> enveloped v"
  by (simp add: keys_message enveloped_message)

lemma enveloped_donor_ok:
  "enveloped (JObj [(''success'', JBool True), (''donor'', donor_json d)])"
  using enveloped_payload [of "''donor''" True "[]"] by simp

lemmas resp_simps =
  not_found_def donor_ok_def keys_message enveloped_message keys_donor enveloped_donor_ok
  findById_def castObjectId_def

lemma resp_register:
  "\<exists>c v. snd (register L nid st s b) = Json c v
         \<and> ''password'' \<notin> set (json_keys v) \<and> enveloped v"
  by (auto simp: register_def keys_message enveloped_message split: option.splits)

lemma resp_login:
  "\<exists>c v. snd (login st s b) = Json c v \<and> ''password'' \<notin> set (json_keys v) \<and> enveloped v"
  using enveloped_payload [of "''user''" True "[(''message'', JStr ''Login successful'')]"]
  by (auto simp: login_def keys_message enveloped_message Let_def user_json_def
      split: option.splits)

lemma resp_logout:
  "\<exists>c v. snd (logout s) = Json c v \<and> ''password'' \<notin> set (json_keys v) \<and> enveloped v"
  by (simp add: logout_def keys_message enveloped_message)

lemma resp_listDonors:
  "\<exists>c v. listDonors L st q = Json c v \<and> ''password'' \<notin> set (json_keys v) \<and> enveloped v"
  using enveloped_payload [of "''donors''" True "[]"]
  by (auto simp: listDonors_def keys_message enveloped_message keys_donor_total
      split: option.splits)

lemma resp_deleteDonor:
  "\<exists>c v. snd (deleteDonor L st i) = Json c v
         \<and> ''password'' \<notin> set (json_keys v) \<and> enveloped v"
  by (auto simp: deleteDonor_def resp_simps split: option.splits)

lemma resp_addDonation:
  "(\<not> is_object_id L i \<and> snd (addDonation L nid st i b) = Unhandled)
   \<or> (is_object_id L i \<and>
       (\<exists>c v. snd (addDonation L nid st i b) = Json c v
              \<and> ''password'' \<notin> set (json_keys v) \<and> enveloped v))"
  by (auto simp: addDonation_def Let_def resp_simps split: option.splits)

lemma resp_updateDonation:
  "(\<not> is_object_id L i \<and> snd (updateDonation L st i j b) = Unhandled)
   \<or> (is_object_id L i \<and>
       (\<exists>c v. snd (updateDonation L st i j b) = Json c v
              \<and> ''password'' \<notin> set (json_keys v) \<and> enveloped v))"
  by (auto simp: updateDonation_def Let_def resp_simps split: option.splits)

lemma resp_removeDonation:
  "(\<not> is_object_id L i \<and> snd (removeDonation L st i j) = Unhandled)
   \<or> (is_object_id L i \<and>
       (\<exists>c v. snd (removeDonation L st i j) = Json c v
              \<and> ''password'' \<notin> set (json_keys v) \<and> enveloped v))"
  by (auto simp: removeDonation_def Let_def resp_simps split: option.splits)

lemma resp_updateAccount:
  "(\<not> is_object_id L i \<and> snd (updateAccount L st i b) = Unhandled)
   \<or> (is_object_id L i \<and>
       (\<exists>c v. snd (updateAccount L st i b) = Json c v
              \<and> ''password'' \<notin> set (json_keys v) \<and> enveloped v))"
  by (simp add: updateAccount_def castObjectId_def keys_message enveloped_message)

lemma resp_deleteAccount:
  "(\<not> is_object_id L i \<and> snd (deleteAccount L st i) = Unhandled)
   \<or> (is_object_id L i \<and>
       (\<exists>c v. snd (deleteAccount L st i) = Json c v
              \<and> ''password'' \<notin> set (json_keys v) \<and> enveloped v))"
  by (simp add: deleteAccount_def castObjectId_def keys_message enveloped_message)

lemma resp_requireLogin:
  "requireLogin s = Some r \<Longrightarrow>
     \<exists>c v. r = Json c v \<and> ''password'' \<notin> set (json_keys v) \<and> enveloped v"
  by (auto simp: requireLogin_def keys_message enveloped_message split: option.splits)

lemma handler_keys:
  assumes "run_handler L nid h ps st rq = (st', s', Json c v)"
  shows "''password'' \<notin> set (json_keys v)"
proof (cases h)
  case Index
  with assms show ?thesis by (simp add: run_handler_def)
next
  case Register
  with assms resp_register [of L nid st "r_session rq" "r_body rq"] show ?thesis
    by (auto simp: run_handler_def Let_def split: prod.splits)
next
  case Login
  with assms resp_login [of st "r_session rq" "r_body rq"] show ?thesis
    by (auto simp: run_handler_def Let_def split: prod.splits)
next
  case Logout
  with assms resp_logout [of "r_session rq"] show ?thesis
    by (auto simp: run_handler_def Let_def split: prod.splits)
next
  case ListDonors
  with assms resp_listDonors [of L st "r_query rq"] show ?thesis
    by (auto simp: run_handler_def Let_def)
next
  case DeleteDonor
  with assms resp_deleteDonor [of L st "hd ps"] show ?thesis
    by (auto simp: run_handler_def Let_def split: prod.splits list.splits)
next
  case AddDonation
  with assms resp_addDonation [of L "hd ps" nid st "r_body rq"] show ?thesis
    by (auto simp: run_handler_def Let_def split: prod.splits list.splits)
next
  case UpdateDonation
  with assms resp_updateDonation [of L "hd ps" st "hd (tl ps)" "r_body rq"] show ?thesis
    by (auto simp: run_handler_def Let_def split: prod.splits list.splits)
next
  case RemoveDonation
  with assms resp_removeDonation [of L "hd ps" st "hd (tl ps)"] show ?thesis
    by (auto simp: run_handler_def Let_def split: prod.splits list.splits)
next
  case ListAccounts
  with assms show ?thesis
    by (auto simp: run_handler_def Let_def dest: keys_listAccounts)
next
  case UpdateAccount
  with assms resp_updateAccount [of L "hd ps" st "r_body rq"] show ?thesis
    by (auto simp: run_handler_def Let_def split: prod.splits list.splits)
next
  case DeleteAccount
  with assms resp_deleteAccount [of L "hd ps" st] show ?thesis
    by (auto simp: run_handler_def Let_def split: prod.splits list.splits)
qed

lemma app_keys:
  assumes "app L nid st rq = (st', s', Json c v)"
  shows "''password'' \<notin> set (json_keys v)"
proof -
  from dispatch_result [OF assms [unfolded app_def]]
  consider (guard) "requireLogin (r_session rq) = Some (Json c v)"
    | (route) h ps where "run_handler L nid h ps st rq = (st', s', Json c v)"
    by auto
  then show ?thesis
  proof cases
    case guard
    from resp_requireLogin [OF this] show ?thesis by simp
  next
    case route
    then show ?thesis by (rule handler_keys)
  qed
qed




text \<open>
  No route writes \<^verbatim>\<open>req.session.role\<close>: a session that reaches the application without
  it leaves every request without it, and the register route answers such a session 403.
\<close>

lemma run_handler_role:
  assumes "run_handler L nid h ps st rq = (st', s', r)" and "s_role (r_session rq) = None"
  shows "s_role s' = None"
  using assms
  by (cases h)
    (auto simp: run_handler_def Let_def logout_def fresh_session_def
      split: prod.splits list.splits dest: login_role)

lemma app_role_unset:
  assumes "app L nid st rq = (st', s', r)" and "s_role (r_session rq) = None"
  shows "s_role s' = None"
proof -
  from dispatch_result [OF assms(1) [unfolded app_def]]
  consider "s' = r_session rq"
    | h ps where "run_handler L nid h ps st rq = (st', s', r)"
    by auto
  then show ?thesis
    using assms(2) run_handler_role by cases auto
qed

lemma register_forbidden_without_role:
  "s_role s = None \<Longrightarrow>
     register L nid st s b = (st, Json 403 (message False ''Only admin can create accounts.''))"
  by (simp add: register_def)

section \<open>Properties of authentication\<close>

text \<open>
  The two handlers taken by themselves: the register route stores
  \<^verbatim>\<open>bcrypt.hash(password, 10)\<close> and the login route compares the stored string with the
  submitted password by \<^verbatim>\<open>!==\<close>. Were a registration to succeed (of a username without
  surrounding white space, which login would trim away), the login with the same
  username and plaintext password would be answered 401 unless the hash of the password
  is the password itself. By the lemmas above, no session the routes establish lets a
  registration succeed.
\<close>

lemma login_after_register_mismatch:
  assumes "register L nid st s b = (st', Json 200 (message True ''Account created successfully.''))"
    and "b_username b = Some u" and "b_password b = Some p"
    and "trim u = u" and "bcrypt_hash L p \<noteq> p"
  shows "login st' s0 b = (s0, Json 401 (message False ''Invalid credentials''))"
proof -
  from register_success [OF assms(1)] assms(2,3) obtain r where
    nf: "find (\<lambda>a. a_username a = u) (accounts st) = None" and
    acc: "accounts st' = accounts st @
            [\<lparr>a_id = nid, a_role = r, a_username = u, a_password = bcrypt_hash L p\<rparr>]"
    by auto
  have "find (\<lambda>a. a_username a = u) (accounts st') =
          Some \<lparr>a_id = nid, a_role = r, a_username = u, a_password = bcrypt_hash L p\<rparr>"
    unfolding acc using nf by (rule find_append_new) simp
  then show ?thesis
    using assms(2-5) by (simp add: login_def)
qed

text \<open>
  C2 (register is forbidden exactly for callers that are not admins). The login route
  records the role in \<^verbatim>\<open>req.session.user.role\<close>; the register route reads
  \<^verbatim>\<open>req.session.role\<close>, which login leaves as it was. A session that had no \<^verbatim>\<open>role\<close>
  before a login has none after it, whatever the role of the account, and the register
  request sent with it is answered 403, the database unchanged.
\<close>

theorem register_forbidden_after_login:
  assumes "s_role s = None" and "login st s b = (s', r)"
  shows "register L nid st' s' b' = (st', Json 403 (message False ''Only admin can create accounts.''))"
  using login_role [OF assms(2)] assms(1) by (simp add: register_def)

theorem register_forbidden_after_login_witness:
  "app sample_libs new_id sample_db
      (req POST [''api'', ''login''] no_query
         (no_body\<lparr>b_username := Some ''root'', b_password := Some ''secret''\<rparr>) fresh_session)
     = (sample_db, root_session,
        Json 200 (JObj [(''success'', JBool True), (''message'', JStr ''Login successful''),
                        (''user'', user_json root_user)]))
   \<and> u_role root_user = ''admin''
   \<and> app sample_libs new_id sample_db
      (req POST [''api'', ''register''] no_query
         (no_body\<lparr>b_role := Some ''staff'', b_username := Some ''bob'',
                   b_password := Some ''pw''\<rparr>) root_session)
     = (sample_db, root_session,
        Json 403 (message False ''Only admin can create accounts.''))"
  using register_forbidden_after_login [of fresh_session sample_db
      "no_body\<lparr>b_username := Some ''root'', b_password := Some ''secret''\<rparr>" root_session
      "Json 200 (JObj [(''success'', JBool True), (''message'', JStr ''Login successful''),
                        (''user'', user_json root_user)])"
      sample_libs new_id sample_db
      "no_body\<lparr>b_role := Some ''staff'', b_username := Some ''bob'', b_password := Some ''pw''\<rparr>"]
  by (simp add: app_def routes_def req_def run_handler_def login_def no_body_def
      fresh_session_def root_session_def root_user_def sample_db_def root_account_def
      trim_def is_space_def is_param_def Let_def)

text \<open>
  C9 (login without a username). Whatever the database, the session, the password and
  the rest of the request, a login request whose body has no \<^verbatim>\<open>username\<close> is answered
  500 with message \<^verbatim>\<open>Server error\<close>, and neither the database nor the session changes.
\<close>

theorem login_without_username_500:
  "app L nid st (req POST [''api'', ''login''] q (b\<lparr>b_username := None\<rparr>) s)
     = (st, s, Json 500 (message False ''Server error''))"
  by (simp add: app_def routes_def req_def run_handler_def login_def is_param_def)

section \<open>Properties of the donor query\<close>

text \<open>
  C4 (total and inclusive bounds). Both spreads of the second \<^verbatim>\<open>$match\<close> write the key
  \<^verbatim>\<open>totalDonation\<close>, and the later one wins: whenever \<^verbatim>\<open>maxTotal\<close> is given, the
  response is the one the same request without \<^verbatim>\<open>minTotal\<close> receives. With
  \<^verbatim>\<open>minTotal=100\<close> and \<^verbatim>\<open>maxTotal=200\<close>, Ann (total 80) and Bea (total 20) are both
  returned.
\<close>

theorem minTotal_ignored_when_maxTotal_given:
  assumes "truthy (q_maxTotal q)"
  shows "listDonors L st q = listDonors L st (q\<lparr>q_minTotal := None\<rparr>)"
proof -
  from assms obtain x where x: "q_maxTotal q = Some x" "truthy (Some x)"
    by (cases "q_maxTotal q") (auto simp: truthy_def)
  have "pipeline L f g q ds = pipeline L f g (q\<lparr>q_minTotal := None\<rparr>) ds" for f g ds
    using x by (simp add: pipeline_def total_match_max Let_def split: option.splits)
  then show ?thesis by (simp add: listDonors_def split: option.splits)
qed

theorem minTotal_ignored_when_maxTotal_given_witness:
  "truthy (Some ''200'')
   \<and> listDonors sample_libs sample_db
      (no_query\<lparr>q_minTotal := Some ''100'', q_maxTotal := Some ''200''\<rparr>)
    = Json 200 (JObj [(''success'', JBool True),
        (''donors'', JArr [donor_total_json (ann, 80), donor_total_json (bea, 20)])])"
  using minTotal_ignored_when_maxTotal_given [of
      "no_query\<lparr>q_minTotal := Some ''100'', q_maxTotal := Some ''200''\<rparr>" sample_libs sample_db]
  by (simp add: listDonors_def no_query_def field_regex_def pipeline_def truthy_def
      total_match_def spread_def matches_def parseFloat_defs sample_db_def ann_def bea_def
      totalDonation_def passes_def)

text \<open>
  C5 (a bound that is not a number matches no donor). When \<^verbatim>\<open>minTotal\<close> does not parse
  and \<^verbatim>\<open>maxTotal\<close> is a number, the \<^verbatim>\<open>NaN\<close> lower bound is overwritten and the
  pipeline keeps every donor (that passes the name and city filters) whose total is at
  most \<^verbatim>\<open>maxTotal\<close>. With \<^verbatim>\<open>minTotal=abc\<close> and \<^verbatim>\<open>maxTotal=50\<close>, Bea (total 20) is
  returned.
\<close>

theorem nan_minTotal_overwritten_by_maxTotal:
  assumes "q_minTotal q = Some m" and "parseFloat m = NaN"
    and "q_maxTotal q = Some x" and "parseFloat x = Fin bound" and "q_sortBy q = None"
  shows "pipeline L fname fcity q ds =
           map (\<lambda>d. (d, totalDonation d))
             (filter (\<lambda>d. passes fname (d_name d) \<and> passes fcity (d_city d)
                           \<and> totalDonation d \<le> bound) ds)"
proof -
  have "x \<noteq> []" using assms(4) by (auto simp: parseFloat_def trimStart_def)
  then have t: "truthy (Some x)" by (simp add: truthy_def)
  show ?thesis
    using assms t
    by (simp add: pipeline_def total_match_max matches_def filter_map comp_def)
qed

theorem nan_minTotal_overwritten_by_maxTotal_witness:
  "parseFloat ''abc'' = NaN \<and> parseFloat ''50'' = Fin 50
   \<and> pipeline sample_libs None None
       (no_query\<lparr>q_minTotal := Some ''abc'', q_maxTotal := Some ''50''\<rparr>) (donors sample_db)
     = [(bea, 20)]
   \<and> listDonors sample_libs sample_db
      (no_query\<lparr>q_minTotal := Some ''abc'', q_maxTotal := Some ''50''\<rparr>)
    = Json 200 (JObj [(''success'', JBool True),
        (''donors'', JArr [donor_total_json (bea, 20)])])"
  using nan_minTotal_overwritten_by_maxTotal [of
      "no_query\<lparr>q_minTotal := Some ''abc'', q_maxTotal := Some ''50''\<rparr>" "''abc''" "''50''" 50
      sample_libs None None "donors sample_db"]
  by (simp add: listDonors_def no_query_def field_regex_def pipeline_def truthy_def
      total_match_def spread_def matches_def parseFloat_defs sample_db_def ann_def bea_def
      totalDonation_def passes_def)

text \<open>
  The bounds taken one at a time (and no sort): a numeric \<^verbatim>\<open>minTotal\<close> alone keeps the
  donors whose total is at least the bound; a \<^verbatim>\<open>minTotal\<close> that does not parse, alone,
  and a \<^verbatim>\<open>maxTotal\<close> that does not parse keep no donor.
\<close>

lemma total_match_min:
  "\<not> truthy mx \<Longrightarrow> truthy (Some m) \<Longrightarrow>
     total_match (Some m) mx = [(''totalDonation'', Gte (parseFloat m))]"
  by (auto simp: total_match_def spread_def truthy_def split: option.splits)

lemma pipeline_min_only:
  assumes "\<not> truthy (q_maxTotal q)" and "q_minTotal q = Some m" and "parseFloat m = Fin lo"
    and "q_sortBy q = None"
  shows "pipeline L fname fcity q ds =
           map (\<lambda>d. (d, totalDonation d))
             (filter (\<lambda>d. passes fname (d_name d) \<and> passes fcity (d_city d)
                           \<and> lo \<le> totalDonation d) ds)"
proof -
  have "m \<noteq> []" using assms(3) by (auto simp: parseFloat_def trimStart_def)
  then have t: "truthy (Some m)" by (simp add: truthy_def)
  show ?thesis
    using assms t
    by (simp add: pipeline_def total_match_min matches_def filter_map comp_def)
qed

lemma pipeline_nan_alone:
  assumes "\<not> truthy (q_maxTotal q)" and "q_minTotal q = Some m" and "m \<noteq> []"
    and "parseFloat m = NaN" and "q_sortBy q = None"
  shows "pipeline L fname fcity q ds = []"
  using assms
  by (simp add: pipeline_def total_match_min matches_def truthy_def)

lemma pipeline_nan_max:
  assumes "q_maxTotal q = Some x" and "x \<noteq> []" and "parseFloat x = NaN"
    and "q_sortBy q = None"
  shows "pipeline L fname fcity q ds = []"
  using assms
  by (simp add: pipeline_def total_match_max matches_def truthy_def)

section \<open>Properties of donor and donation mutation\<close>

text \<open>
  C10 (other donors are untouched). For each of the four mutating operations aimed at
  donor \<open>X\<close>, the donors whose \<^verbatim>\<open>_id\<close> differs from \<open>X\<close> are, after the operation, the
  same documents in the same order as before, donation lists included.
\<close>

theorem mutations_leave_other_donors:
  "filter (\<lambda>d. d_id d \<noteq> X) (donors (fst (deleteDonor L st X)))
     = filter (\<lambda>d. d_id d \<noteq> X) (donors st)
   \<and> filter (\<lambda>d. d_id d \<noteq> X) (donors (fst (addDonation L nid st X b)))
     = filter (\<lambda>d. d_id d \<noteq> X) (donors st)
   \<and> filter (\<lambda>d. d_id d \<noteq> X) (donors (fst (updateDonation L st X j b)))
     = filter (\<lambda>d. d_id d \<noteq> X) (donors st)
   \<and> filter (\<lambda>d. d_id d \<noteq> X) (donors (fst (removeDonation L st X j)))
     = filter (\<lambda>d. d_id d \<noteq> X) (donors st)"
proof (intro conjI)
  show "filter (\<lambda>d. d_id d \<noteq> X) (donors (fst (deleteDonor L st X)))
     = filter (\<lambda>d. d_id d \<noteq> X) (donors st)"
    using filter_delete_first [of "\<lambda>d. d_id d = X" "donors st"]
    by (simp add: deleteDonor_def split: sum.splits option.splits)
  show "filter (\<lambda>d. d_id d \<noteq> X) (donors (fst (addDonation L nid st X b)))
     = filter (\<lambda>d. d_id d \<noteq> X) (donors st)"
    by (auto simp: addDonation_def Let_def others_save dest: findById_id
        split: sum.splits option.splits)
  show "filter (\<lambda>d. d_id d \<noteq> X) (donors (fst (updateDonation L st X j b)))
     = filter (\<lambda>d. d_id d \<noteq> X) (donors st)"
    by (auto simp: updateDonation_def Let_def others_save dest: findById_id
        split: sum.splits option.splits)
  show "filter (\<lambda>d. d_id d \<noteq> X) (donors (fst (removeDonation L st X j)))
     = filter (\<lambda>d. d_id d \<noteq> X) (donors st)"
    by (auto simp: removeDonation_def Let_def others_save dest: findById_id
        split: sum.splits option.splits)
qed




section \<open>Properties of routing and responses\<close>

text \<open>
  C3 (routes behind the session guard), as amended. \<^verbatim>\<open>requireLogin\<close> is mounted on
  \<^verbatim>\<open>/api/donors\<close> (and \<^verbatim>\<open>/api/donations\<close>) only. Every request under \<^verbatim>\<open>/api/donors\<close>,
  whatever its method, that carries no session user is answered 401 and leaves the
  database and the session as they were. The three account routes are registered
  without the guard: they run their handler whatever the session holds.
\<close>

theorem donor_routes_require_login:
  "(s_user (r_session rq) = None \<longrightarrow> starts_with [''api'', ''donors''] (r_path rq) \<longrightarrow>
      app L nid st rq
        = (st, r_session rq, Json 401 (message False ''Unauthorized. Please log in.'')))
   \<and> app L nid st (req GET [''api'', ''accounts''] q b s) = (st, s, listAccounts st)
   \<and> (i \<noteq> [] \<longrightarrow>
        app L nid st (req PUT [''api'', ''accounts'', i] q b s)
          = (fst (updateAccount L st i b), s, snd (updateAccount L st i b)))
   \<and> (i \<noteq> [] \<longrightarrow>
        app L nid st (req DELETE [''api'', ''accounts'', i] q b s)
          = (fst (deleteAccount L st i), s, snd (deleteAccount L st i)))"
proof (intro conjI impI)
  assume nouser: "s_user (r_session rq) = None"
    and under: "starts_with [''api'', ''donors''] (r_path rq)"
  from under obtain rest where p: "r_path rq = ''api'' # ''donors'' # rest"
    by (cases "r_path rq"; cases "tl (r_path rq)") (auto simp: starts_with_def)
  show "app L nid st rq
          = (st, r_session rq, Json 401 (message False ''Unauthorized. Please log in.''))"
    using nouser p
    by (simp add: app_def routes_def starts_with_def requireLogin_def is_param_def)
next
  show "app L nid st (req GET [''api'', ''accounts''] q b s) = (st, s, listAccounts st)"
    by (simp add: app_def routes_def req_def starts_with_def is_param_def run_handler_def)
next
  assume "i \<noteq> []"
  then show "app L nid st (req PUT [''api'', ''accounts'', i] q b s)
          = (fst (updateAccount L st i b), s, snd (updateAccount L st i b))"
    by (simp add: app_def routes_def req_def starts_with_def is_param_def run_handler_def
        split: prod.splits)
next
  assume "i \<noteq> []"
  then show "app L nid st (req DELETE [''api'', ''accounts'', i] q b s)
          = (fst (deleteAccount L st i), s, snd (deleteAccount L st i))"
    by (simp add: app_def routes_def req_def starts_with_def is_param_def run_handler_def
        split: prod.splits)
qed

theorem donor_routes_require_login_witness:
  "s_user (r_session (req DELETE [''api'', ''donors'', ann_id] no_query no_body fresh_session)) = None
   \<and> starts_with [''api'', ''donors'']
        (r_path (req DELETE [''api'', ''donors'', ann_id] no_query no_body fresh_session))
   \<and> app sample_libs new_id sample_db
        (req DELETE [''api'', ''donors'', ann_id] no_query no_body fresh_session)
      = (sample_db, fresh_session, Json 401 (message False ''Unauthorized. Please log in.''))
   \<and> app sample_libs new_id sample_db
        (req PUT [''api'', ''accounts'', root_id] no_query
           (no_body\<lparr>b_role := Some ''staff''\<rparr>) fresh_session)
      = (sample_db\<lparr>accounts := [root_account\<lparr>a_role := ''staff''\<rparr>]\<rparr>, fresh_session,
         Json 200 (message True ''Account updated successfully.''))"
  using donor_routes_require_login [of
      "req DELETE [''api'', ''donors'', ann_id] no_query no_body fresh_session"
      sample_libs new_id sample_db no_query "no_body\<lparr>b_role := Some ''staff''\<rparr>"
      fresh_session root_id] sample_ids_wf
  by (simp add: req_def fresh_session_def starts_with_def updateAccount_def castObjectId_def
      sample_libs_def sample_db_def root_account_def no_body_def root_id_def)

theorem accounts_delete_without_session:
  "s_user fresh_session = None
   \<and> app sample_libs new_id sample_db
        (req DELETE [''api'', ''accounts'', root_id] no_query no_body fresh_session)
      = (sample_db\<lparr>accounts := []\<rparr>, fresh_session,
         Json 200 (message True ''Account deleted successfully.''))"
  using sample_ids_wf
  by (simp add: app_def routes_def req_def starts_with_def is_param_def run_handler_def
      deleteAccount_def castObjectId_def sample_libs_def sample_db_def root_account_def
      fresh_session_def root_id_def)

text \<open>
  C7 (passwords are never returned). \<^verbatim>\<open>GET /api/accounts\<close> answers with one object per
  account, in order, made of \<^verbatim>\<open>_id\<close>, \<^verbatim>\<open>role\<close> and \<^verbatim>\<open>username\<close>; a successful login
  answers with a \<^verbatim>\<open>user\<close> object made of the \<^verbatim>\<open>id\<close>, \<^verbatim>\<open>username\<close> and \<^verbatim>\<open>role\<close> of a
  stored account; and no JSON response of any route has a property named
  \<^verbatim>\<open>password\<close> at any depth.
\<close>

theorem passwords_never_returned:
  "listAccounts st =
     Json 200 (JArr (map (\<lambda>a. JObj [(''_id'', JStr (a_id a)), (''role'', JStr (a_role a)),
                                      (''username'', JStr (a_username a))]) (accounts st)))
   \<and> (\<forall>s' v. login st s b = (s', Json 200 v) \<longrightarrow>
         (\<exists>a\<in>set (accounts st).
            v = JObj [(''success'', JBool True), (''message'', JStr ''Login successful''),
                      (''user'', JObj [(''id'', JStr (a_id a)),
                                       (''username'', JStr (a_username a)),
                                       (''role'', JStr (a_role a))])]))
   \<and> (\<forall>st' s' c v. app L nid st rq = (st', s', Json c v) \<longrightarrow>
         ''password'' \<notin> set (json_keys v))"
proof (intro conjI allI impI)
  show "listAccounts st =
     Json 200 (JArr (map (\<lambda>a. JObj [(''_id'', JStr (a_id a)), (''role'', JStr (a_role a)),
                                      (''username'', JStr (a_username a))]) (accounts st)))"
    by (rule listAccounts_eq)
next
  fix s' v
  assume ok: "login st s b = (s', Json 200 v)"
  then obtain u a where "b_username b = Some u"
    and a: "find (\<lambda>a. a_username a = trim u) (accounts st) = Some a"
    and v: "v = JObj [(''success'', JBool True), (''message'', JStr ''Login successful''),
                      (''user'', user_json \<lparr>u_id = a_id a, u_username = a_username a,
                                             u_role = a_role a\<rparr>)]"
    by (auto simp: login_def Let_def message_def split: option.splits if_splits)
  from a have "a \<in> set (accounts st)"
    by (auto simp: find_Some_iff)
  with v show "\<exists>a\<in>set (accounts st).
            v = JObj [(''success'', JBool True), (''message'', JStr ''Login successful''),
                      (''user'', JObj [(''id'', JStr (a_id a)),
                                       (''username'', JStr (a_username a)),
                                       (''role'', JStr (a_role a))])]"
    by (auto simp: user_json_def)
next
  fix st' s' c v
  assume "app L nid st rq = (st', s', Json c v)"
  then show "''password'' \<notin> set (json_keys v)" by (rule app_keys)
qed

theorem passwords_never_returned_witness:
  "listAccounts sample_db =
     Json 200 (JArr [JObj [(''_id'', JStr root_id), (''role'', JStr ''admin''),
                           (''username'', JStr ''root'')]])
   \<and> login sample_db fresh_session
        (no_body\<lparr>b_username := Some ''root'', b_password := Some ''secret''\<rparr>)
      = (root_session,
         Json 200 (JObj [(''success'', JBool True), (''message'', JStr ''Login successful''),
                         (''user'', JObj [(''id'', JStr root_id), (''username'', JStr ''root''),
                                          (''role'', JStr ''admin'')])]))
   \<and> app sample_libs new_id sample_db
        (req GET [''api'', ''accounts''] no_query no_body root_session)
      = (sample_db, root_session,
         Json 200 (JArr [JObj [(''_id'', JStr root_id), (''role'', JStr ''admin''),
                               (''username'', JStr ''root'')]]))
   \<and> ''password'' \<notin> set (json_keys
         (JArr [JObj [(''_id'', JStr root_id), (''role'', JStr ''admin''),
                      (''username'', JStr ''root'')]]))"
  using passwords_never_returned [of sample_db fresh_session
      "no_body\<lparr>b_username := Some ''root'', b_password := Some ''secret''\<rparr>" sample_libs new_id
      "req GET [''api'', ''accounts''] no_query no_body root_session"]
  by (simp add: login_def sample_db_def root_account_def fresh_session_def root_session_def
      root_user_def no_body_def trim_def is_space_def user_json_def Let_def
      app_def routes_def req_def starts_with_def is_param_def run_handler_def)




end
